theory Spec2Isabelle
  imports Complex_Main "HOL-Library.Multiset"
begin

section \<open>Data model\<close>

text \<open>
  The module \<^verbatim>\<open>src/lib/calendar-utils.ts\<close> works on JavaScript \<^verbatim>\<open>Date\<close> values and
  \<^verbatim>\<open>number\<close>s. A \<^verbatim>\<open>Date\<close> is modelled by its time value (\<^verbatim>\<open>getTime()\<close>, milliseconds
  since the epoch), an \<open>int\<close>. A \<^verbatim>\<open>number\<close> that holds hours or money is modelled as an
  exact \<open>real\<close>: rounding of IEEE doubles, \<^verbatim>\<open>NaN\<close> and the infinities are outside the model.
\<close>

type_synonym instant = int

text \<open>
  The UI-facing \<^verbatim>\<open>Booking\<close> of \<^verbatim>\<open>src/types/index.ts\<close>. The optional fields are options.
\<close>

record Booking =
  b_id :: string
  startTime :: instant
  endTime :: instant
  clientName :: string
  service :: "string option"
  title :: "string option"

text \<open>
  Modelled from the spec: the declarations of \<^verbatim>\<open>ProjectDocument\<close>, \<^verbatim>\<open>BookingDocument\<close>,
  \<^verbatim>\<open>ClientDocument\<close> and \<^verbatim>\<open>PacoteType\<close> live in \<^verbatim>\<open>@/types/firestore\<close>, which is not among
  the sources. The records below carry the fields the functions read: a project has an
  identifier, a name, a billing type (one of custom, \<^verbatim>\<open>'personalizado'\<close>, or package,
  \<^verbatim>\<open>'pacote'\<close>), an optional custom hourly rate and an optional package tier (one of four
  named tiers); a booking record has an identifier, start and end, a client reference, a
  project reference and a duration in hours; a client has an identifier and a name.
  \<open>customRate = None\<close> stands for every value whose \<^verbatim>\<open>typeof\<close> is not \<^verbatim>\<open>'number'\<close>.
\<close>

datatype BillingType = Pacote | Personalizado

datatype PacoteType = Avulso | Pacote10h | Pacote20h | Pacote40h

record ProjectDocument =
  p_id :: string
  p_name :: string
  billingType :: BillingType
  customRate :: "real option"
  pacoteSelecionado :: "PacoteType option"

record BookingDocument =
  d_id :: string
  d_startTime :: instant
  d_endTime :: instant
  clientId :: string
  projectId :: string
  duration :: real

record ClientDocument =
  c_id :: string
  c_name :: string

text \<open>
  \<^verbatim>\<open>ProjectCostMetrics\<close> and \<^verbatim>\<open>ClientMonthlyMetrics\<close> are the same structural type:
  three numbers.
\<close>

record CostMetrics =
  totalHours :: real
  pricePerHour :: real
  totalAmount :: real

type_synonym ProjectCostMetrics = CostMetrics
type_synonym ClientMonthlyMetrics = CostMetrics

section \<open>Rate resolution and project cost\<close>

text \<open>
  \<^verbatim>\<open>getProjectPricePerHour\<close> of \<^verbatim>\<open>calendar-utils.ts\<close>: a numeric custom rate on a
  \<^verbatim>\<open>'personalizado'\<close> project wins; every other case falls through to the tiers.
\<close>

definition getProjectPricePerHour :: "ProjectDocument \<Rightarrow> real \<Rightarrow> real" where
  "getProjectPricePerHour project hours =
     (case (if billingType project = Personalizado then customRate project else None) of
        Some rate \<Rightarrow> rate
      | None \<Rightarrow>
          if 40 \<le> hours then 160
          else if 20 \<le> hours then 230
          else if 10 \<le> hours then 260
          else 350)"

text \<open>
  \<^verbatim>\<open>getPricePerHourForProject\<close>, the rate function of the other variant of the module
  (the second document of \<^verbatim>\<open>src/types/index.ts\<close>). Its argument is typed as a present
  project; \<^verbatim>\<open>customRate ?? 0\<close> is the rate of a custom project.
\<close>

definition getPricePerHourForProject :: "ProjectDocument \<Rightarrow> real" where
  "getPricePerHourForProject project =
     (case billingType project of
        Personalizado \<Rightarrow> (case customRate project of Some rate \<Rightarrow> rate | None \<Rightarrow> 0)
      | Pacote \<Rightarrow>
          (case pacoteSelecionado project of
             Some Avulso \<Rightarrow> 350
           | Some Pacote10h \<Rightarrow> 260
           | Some Pacote20h \<Rightarrow> 230
           | Some Pacote40h \<Rightarrow> 160
           | None \<Rightarrow> 350))"

text \<open>
  \<^verbatim>\<open>calculateProjectCost\<close>: \<open>None\<close> is the \<^verbatim>\<open>null\<close> the source returns for an absent
  project (after a \<^verbatim>\<open>console.error\<close>, which has no effect on the result). The
  \<^verbatim>\<open>reduce\<close> is a left fold from 0.
\<close>

definition sumDurations :: "BookingDocument list \<Rightarrow> real" where
  "sumDurations bs = foldl (\<lambda>sum booking. sum + duration booking) 0 bs"

definition calculateProjectCost ::
    "BookingDocument list \<Rightarrow> ProjectDocument option \<Rightarrow> ProjectCostMetrics option" where
  "calculateProjectCost projectBookings project =
     (case project of
        None \<Rightarrow> None
      | Some p \<Rightarrow>
          let hours = sumDurations projectBookings;
              price = getProjectPricePerHour p hours;
              amount = hours * price
          in Some \<lparr>totalHours = hours, pricePerHour = price, totalAmount = amount\<rparr>)"

section \<open>Slot classifier\<close>

text \<open>
  \<^verbatim>\<open>addHours\<close> and \<^verbatim>\<open>subHours\<close> of date-fns add a multiple of 3600000 milliseconds to
  the time value; \<^verbatim>\<open>subHours\<close> is \<^verbatim>\<open>addHours\<close> of the negated amount.
\<close>

definition addHours :: "instant \<Rightarrow> int \<Rightarrow> instant" where
  "addHours date amount = date + amount * 3600000"

definition subHours :: "instant \<Rightarrow> int \<Rightarrow> instant" where
  "subHours date amount = addHours date (- amount)"

definition BUFFER_HOURS :: int where
  "BUFFER_HOURS = 1"

record SlotAvailability =
  isBooked :: bool
  isBuffer :: bool
  bookingDetails :: "Booking option"

text \<open>
  The three-way test that both loops of \<^verbatim>\<open>checkSlotAvailability\<close> spell out: the slot
  start falls inside the booking, or the slot end does, or the booking lies inside the slot.
\<close>

definition directlyBooked :: "instant \<Rightarrow> instant \<Rightarrow> Booking \<Rightarrow> bool" where
  "directlyBooked slotTime slotEndTime booking =
     ((slotTime \<ge> startTime booking \<and> slotTime < endTime booking) \<or>
      (slotEndTime > startTime booking \<and> slotEndTime \<le> endTime booking) \<or>
      (startTime booking \<ge> slotTime \<and> endTime booking \<le> slotEndTime))"

text \<open>
  The first loop returns at the first booking that passes the test; \<open>None\<close> is the loop
  running to its end.
\<close>

fun bookedLoop :: "instant \<Rightarrow> instant \<Rightarrow> Booking list \<Rightarrow> SlotAvailability option" where
  "bookedLoop slotTime slotEndTime [] = None"
| "bookedLoop slotTime slotEndTime (booking # rest) =
     (if directlyBooked slotTime slotEndTime booking
      then Some \<lparr>isBooked = True, isBuffer = False, bookingDetails = Some booking\<rparr>
      else bookedLoop slotTime slotEndTime rest)"

text \<open>
  The second loop skips (\<^verbatim>\<open>continue\<close>) a booking that passes the test and returns at the
  first booking whose buffer before the start or after the end holds the slot start.
\<close>

fun bufferLoop :: "instant \<Rightarrow> instant \<Rightarrow> Booking list \<Rightarrow> SlotAvailability option" where
  "bufferLoop slotTime slotEndTime [] = None"
| "bufferLoop slotTime slotEndTime (booking # rest) =
     (if directlyBooked slotTime slotEndTime booking
      then bufferLoop slotTime slotEndTime rest
      else
        let bufferBeforeStart = subHours (startTime booking) BUFFER_HOURS;
            bufferAfterEnd = addHours (endTime booking) BUFFER_HOURS
        in if slotTime \<ge> bufferBeforeStart \<and> slotTime < startTime booking
           then Some \<lparr>isBooked = False, isBuffer = True, bookingDetails = Some booking\<rparr>
           else if slotTime \<ge> endTime booking \<and> slotTime < bufferAfterEnd
           then Some \<lparr>isBooked = False, isBuffer = True, bookingDetails = Some booking\<rparr>
           else bufferLoop slotTime slotEndTime rest)"

definition checkSlotAvailability :: "instant \<Rightarrow> Booking list \<Rightarrow> SlotAvailability" where
  "checkSlotAvailability slotTime bookings =
     (let slotEndTime = addHours slotTime 1
      in case bookedLoop slotTime slotEndTime bookings of
           Some found \<Rightarrow> found
         | None \<Rightarrow>
             (case bufferLoop slotTime slotEndTime bookings of
                Some found \<Rightarrow> found
              | None \<Rightarrow> \<lparr>isBooked = False, isBuffer = False, bookingDetails = None\<rparr>))"


definition inBufferZone :: "instant \<Rightarrow> Booking \<Rightarrow> bool" where
  "inBufferZone S booking =
     ((startTime booking - 3600000 \<le> S \<and> S < startTime booking) \<or>
      (endTime booking \<le> S \<and> S < endTime booking + 3600000))"


section \<open>Calendar arithmetic\<close>

text \<open>
  The date-fns functions used by the module read a \<^verbatim>\<open>Date\<close> in the local time zone. The
  zone is a parameter \<open>tz\<close> of the model: the offset of local time from UTC in
  milliseconds, the same at every instant (a zone without daylight-saving transitions, as
  UTC or UTC-3). The local day number counts days from 1 January 1970, a Thursday.
\<close>

definition msPerDay :: int where
  "msPerDay = 86400000"

definition localDayNumber :: "int \<Rightarrow> instant \<Rightarrow> int" where
  "localDayNumber tz date = (date + tz) div msPerDay"







text \<open>
  Year and month of a local day number in the proleptic Gregorian calendar (the calendar
  of \<^verbatim>\<open>Date\<close>), by the usual era arithmetic on days counted from 1 March of year 0.
  \<^verbatim>\<open>getMonth\<close> counts from 0. \<^verbatim>\<open>isSameMonth\<close> of date-fns compares \<^verbatim>\<open>getFullYear\<close> and
  \<^verbatim>\<open>getMonth\<close> of both dates.
\<close>

definition civilYearMonth :: "int \<Rightarrow> int \<times> int" where
  "civilYearMonth days =
     (let z = days + 719468;
          era = z div 146097;
          doe = z mod 146097;
          yoe = (doe - doe div 1460 + doe div 36524 - doe div 146096) div 365;
          doy = doe - (365 * yoe + yoe div 4 - yoe div 100);
          mp = (5 * doy + 2) div 153;
          month = (if mp < 10 then mp + 3 else mp - 9);
          year = yoe + era * 400 + (if month \<le> 2 then 1 else 0)
      in (year, month - 1))"

definition getFullYear :: "int \<Rightarrow> instant \<Rightarrow> int" where
  "getFullYear tz date = fst (civilYearMonth (localDayNumber tz date))"

definition getMonth :: "int \<Rightarrow> instant \<Rightarrow> int" where
  "getMonth tz date = snd (civilYearMonth (localDayNumber tz date))"

definition isSameMonth :: "int \<Rightarrow> instant \<Rightarrow> instant \<Rightarrow> bool" where
  "isSameMonth tz dateLeft dateRight =
     (getFullYear tz dateLeft = getFullYear tz dateRight
      \<and> getMonth tz dateLeft = getMonth tz dateRight)"

section \<open>Monthly client metrics\<close>

text \<open>
  \<^verbatim>\<open>calculateMonthlyClientMetrics\<close> groups bookings in plain objects
  (\<^verbatim>\<open>Record<string, BookingDocument[]>\<close> created as \<^verbatim>\<open>{}\<close>). Such an object is modelled
  by the list of its own properties in creation order. Three facts of JavaScript objects
  are part of the model, since the result depends on them:
  \<^item> a property read finds the properties of \<^verbatim>\<open>Object.prototype\<close> too, so
    \<^verbatim>\<open>obj[key]\<close> is truthy for a key such as \<^verbatim>\<open>'constructor'\<close> that is no own property,
    and the value found has no \<^verbatim>\<open>push\<close>: the call throws a \<^verbatim>\<open>TypeError\<close>;
  \<^item> \<^verbatim>\<open>for ... in\<close> visits the own keys that are array indices first, in ascending
    numeric order, and then the other keys in creation order;
  \<^item> an assignment to the key \<^verbatim>\<open>'__proto__'\<close> sets the prototype and creates no own
    property.
\<close>

datatype js_error = TypeError

type_synonym 'v js_object = "(string \<times> 'v) list"

definition objectPrototypeKeys :: "string list" where
  "objectPrototypeKeys =
     [''constructor'', ''__defineGetter__'', ''__defineSetter__'', ''hasOwnProperty'',
      ''__lookupGetter__'', ''__lookupSetter__'', ''isPrototypeOf'', ''propertyIsEnumerable'',
      ''toString'', ''valueOf'', ''__proto__'', ''toLocaleString'']"

text \<open>
  The body of both grouping callbacks:
  \<^verbatim>\<open>if (!obj[key]) { obj[key] = []; }  obj[key].push(booking);\<close>
\<close>

definition pushInto ::
    "BookingDocument list js_object \<Rightarrow> string \<Rightarrow> BookingDocument
      \<Rightarrow> js_error + BookingDocument list js_object" where
  "pushInto obj key booking =
     (case map_of obj key of
        Some bookings \<Rightarrow>
          Inr (map (\<lambda>(k, v). if k = key then (k, v @ [booking]) else (k, v)) obj)
      | None \<Rightarrow>
          if key \<in> set objectPrototypeKeys then Inl TypeError
          else Inr (obj @ [(key, [booking])]))"

fun groupBookings ::
    "(BookingDocument \<Rightarrow> string) \<Rightarrow> BookingDocument list js_object \<Rightarrow> BookingDocument list
      \<Rightarrow> js_error + BookingDocument list js_object" where
  "groupBookings key obj [] = Inr obj"
| "groupBookings key obj (booking # rest) =
     (case pushInto obj (key booking) booking of
        Inl e \<Rightarrow> Inl e
      | Inr obj' \<Rightarrow> groupBookings key obj' rest)"

text \<open>
  A key is an array index when it is the canonical decimal form of an integer from 0 to
  \<open>2^32 - 2\<close>.
\<close>

definition isDigit :: "char \<Rightarrow> bool" where
  "isDigit c = (c \<in> set ''0123456789'')"

definition digitValue :: "char \<Rightarrow> int" where
  "digitValue c = of_char c - 48"

definition numericValue :: "string \<Rightarrow> int" where
  "numericValue key = foldl (\<lambda>n c. 10 * n + digitValue c) 0 key"

definition isArrayIndex :: "string \<Rightarrow> bool" where
  "isArrayIndex key =
     (key \<noteq> [] \<and> list_all isDigit key \<and> (length key = 1 \<or> hd key \<noteq> CHR ''0'')
      \<and> numericValue key < 4294967295)"

definition forIn :: "'v js_object \<Rightarrow> (string \<times> 'v) list" where
  "forIn obj =
     sort_key (\<lambda>entry. numericValue (fst entry)) (filter (\<lambda>entry. isArrayIndex (fst entry)) obj)
     @ filter (\<lambda>entry. \<not> isArrayIndex (fst entry)) obj"

text \<open>
  The body of the loop over \<^verbatim>\<open>projectGroups\<close>, on the pair of running totals
  \<^verbatim>\<open>(clientTotalHours, clientTotalAmount)\<close>: a project that is not in \<^verbatim>\<open>allProjects\<close> is
  skipped; otherwise the rate comes from \<^verbatim>\<open>calculateProjectCost\<close> over all bookings of
  the project and is applied to the hours of the group.
\<close>

definition addProjectGroup ::
    "BookingDocument list \<Rightarrow> ProjectDocument list \<Rightarrow> real \<times> real
      \<Rightarrow> string \<times> BookingDocument list \<Rightarrow> real \<times> real" where
  "addProjectGroup allBookingDocuments allProjects totals entry =
     (case find (\<lambda>p. p_id p = fst entry) allProjects of
        None \<Rightarrow> totals
      | Some project \<Rightarrow>
          (let allBookingsForThisProject =
                 filter (\<lambda>b. projectId b = fst entry) allBookingDocuments
           in case calculateProjectCost allBookingsForThisProject (Some project) of
                None \<Rightarrow> totals
              | Some projectCostMetrics \<Rightarrow>
                  (let monthlyHoursForThisProject = sumDurations (snd entry)
                   in (fst totals + monthlyHoursForThisProject,
                       snd totals + monthlyHoursForThisProject * pricePerHour projectCostMetrics))))"

text \<open>The metric of one client, from the client's bookings of the month.\<close>

definition clientMetrics ::
    "BookingDocument list \<Rightarrow> ProjectDocument list \<Rightarrow> BookingDocument list
      \<Rightarrow> js_error + ClientMonthlyMetrics" where
  "clientMetrics allBookingDocuments allProjects bookingsOfClient =
     (case groupBookings projectId [] bookingsOfClient of
        Inl e \<Rightarrow> Inl e
      | Inr projectGroups \<Rightarrow>
          (let totals = foldl (addProjectGroup allBookingDocuments allProjects) (0, 0)
                          (forIn projectGroups);
               clientTotalHours = fst totals;
               clientTotalAmount = snd totals;
               effectivePricePerHour =
                 (if clientTotalHours > 0 then clientTotalAmount / clientTotalHours else 0)
           in Inr \<lparr>totalHours = clientTotalHours, pricePerHour = effectivePricePerHour,
                    totalAmount = clientTotalAmount\<rparr>))"

text \<open>
  \<^verbatim>\<open>MonthlyRecipe\<close>, the result object, is modelled by the map of its own properties.
\<close>

type_synonym MonthlyRecipe = "string \<rightharpoonup> ClientMonthlyMetrics"

definition assignProperty :: "MonthlyRecipe \<Rightarrow> string \<Rightarrow> ClientMonthlyMetrics \<Rightarrow> MonthlyRecipe" where
  "assignProperty obj key v = (if key = ''__proto__'' then obj else obj(key \<mapsto> v))"

text \<open>
  The loop over \<^verbatim>\<open>clientBookings\<close>: a client that is not in \<^verbatim>\<open>allClients\<close> is skipped;
  the metric of a client is stored under the client's name.
\<close>

fun clientLoop ::
    "BookingDocument list \<Rightarrow> ProjectDocument list \<Rightarrow> ClientDocument list \<Rightarrow> MonthlyRecipe
      \<Rightarrow> (string \<times> BookingDocument list) list \<Rightarrow> js_error + MonthlyRecipe" where
  "clientLoop allBookingDocuments allProjects allClients monthlyRecipe [] = Inr monthlyRecipe"
| "clientLoop allBookingDocuments allProjects allClients monthlyRecipe (entry # rest) =
     (case find (\<lambda>c. c_id c = fst entry) allClients of
        None \<Rightarrow> clientLoop allBookingDocuments allProjects allClients monthlyRecipe rest
      | Some client \<Rightarrow>
          (case clientMetrics allBookingDocuments allProjects (snd entry) of
             Inl e \<Rightarrow> Inl e
           | Inr metrics \<Rightarrow>
               clientLoop allBookingDocuments allProjects allClients
                 (assignProperty monthlyRecipe (c_name client) metrics) rest))"

definition monthlyBookings :: "int \<Rightarrow> BookingDocument list \<Rightarrow> instant \<Rightarrow> BookingDocument list" where
  "monthlyBookings tz allBookingDocuments targetDateForMonth =
     filter (\<lambda>b. isSameMonth tz (d_startTime b) targetDateForMonth) allBookingDocuments"

definition calculateMonthlyClientMetrics ::
    "int \<Rightarrow> BookingDocument list \<Rightarrow> ProjectDocument list \<Rightarrow> ClientDocument list \<Rightarrow> instant
      \<Rightarrow> js_error + MonthlyRecipe" where
  "calculateMonthlyClientMetrics tz allBookingDocuments allProjects allClients targetDateForMonth =
     (case groupBookings clientId []
             (monthlyBookings tz allBookingDocuments targetDateForMonth) of
        Inl e \<Rightarrow> Inl e
      | Inr clientBookings \<Rightarrow>
          clientLoop allBookingDocuments allProjects allClients Map.empty (forIn clientBookings))"

text \<open>
  The words of the specification, to compare the loops with. The monthly hours of a
  (client, project) pair are the durations of the client's bookings of the month on that
  project. The rate of a project is resolved from the durations of all its bookings, of
  any month and any client. The billed projects of a client are the projects of the
  client's bookings of the month that are in the reference list. The client's hours and
  amount are the sums over the billed projects.
\<close>

definition pairHours :: "BookingDocument list \<Rightarrow> string \<Rightarrow> string \<Rightarrow> real" where
  "pairHours monthly cid pid =
     sum_list (map duration (filter (\<lambda>b. clientId b = cid \<and> projectId b = pid) monthly))"

definition lifetimeHours :: "BookingDocument list \<Rightarrow> string \<Rightarrow> real" where
  "lifetimeHours allBookingDocuments pid =
     sum_list (map duration (filter (\<lambda>b. projectId b = pid) allBookingDocuments))"

definition lifetimeRate :: "BookingDocument list \<Rightarrow> ProjectDocument list \<Rightarrow> string \<Rightarrow> real" where
  "lifetimeRate allBookingDocuments allProjects pid =
     (case find (\<lambda>p. p_id p = pid) allProjects of
        None \<Rightarrow> 0
      | Some project \<Rightarrow> getProjectPricePerHour project (lifetimeHours allBookingDocuments pid))"

definition billedProjects :: "BookingDocument list \<Rightarrow> ProjectDocument list \<Rightarrow> string \<Rightarrow> string list" where
  "billedProjects monthly allProjects cid =
     filter (\<lambda>pid. find (\<lambda>p. p_id p = pid) allProjects \<noteq> None)
       (remdups (map projectId (filter (\<lambda>b. clientId b = cid) monthly)))"

definition clientHours :: "BookingDocument list \<Rightarrow> ProjectDocument list \<Rightarrow> string \<Rightarrow> real" where
  "clientHours monthly allProjects cid =
     sum_list (map (pairHours monthly cid) (billedProjects monthly allProjects cid))"

definition clientAmount ::
    "BookingDocument list \<Rightarrow> BookingDocument list \<Rightarrow> ProjectDocument list \<Rightarrow> string \<Rightarrow> real" where
  "clientAmount allBookingDocuments monthly allProjects cid =
     sum_list (map (\<lambda>pid. pairHours monthly cid pid * lifetimeRate allBookingDocuments allProjects pid)
       (billedProjects monthly allProjects cid))"

definition blendedMetrics ::
    "BookingDocument list \<Rightarrow> BookingDocument list \<Rightarrow> ProjectDocument list \<Rightarrow> string
      \<Rightarrow> ClientMonthlyMetrics" where
  "blendedMetrics allBookingDocuments monthly allProjects cid =
     \<lparr>totalHours = clientHours monthly allProjects cid,
      pricePerHour =
        (if clientHours monthly allProjects cid = 0 then 0
         else clientAmount allBookingDocuments monthly allProjects cid
                / clientHours monthly allProjects cid),
      totalAmount = clientAmount allBookingDocuments monthly allProjects cid\<rparr>"

text \<open>
  The state of a grouping object after the bookings \<open>bs\<close> have been pushed: one own
  property per key that occurs, holding the bookings of that key in their order.
\<close>

definition grouped ::
    "(BookingDocument \<Rightarrow> string) \<Rightarrow> BookingDocument list js_object \<Rightarrow> BookingDocument list \<Rightarrow> bool" where
  "grouped key obj bs =
     (distinct (map fst obj) \<and> set (map fst obj) = set (map key bs)
      \<and> list_all (\<lambda>entry. snd entry = filter (\<lambda>b. key b = fst entry) bs) obj)"

section \<open>Facts about the fold\<close>



section \<open>Claims about pricing\<close>

text \<open>
  C3. The claim gives the package rate as the step function 160 from 40 hours, 230 from
  20, 260 from 10, 350 below, and lists rate(39) = 350 among its values. The listed value
  contradicts the step function of the same claim and the code: 39 hours lie in the tier
  from 20 hours, whose rate is 230.
\<close>

theorem package_rate_at_39_counterexample:
  "getProjectPricePerHour \<lparr>p_id = ''p1'', p_name = ''Album'', billingType = Pacote,
       customRate = None, pacoteSelecionado = None\<rparr> 39 \<noteq> 350"
  by (simp add: getProjectPricePerHour_def)

text \<open>
  C3, amended. For a project with package billing the rate is the step function of the
  cumulative hours with inclusive lower bounds, the highest applicable tier winning: 160
  from 40 hours, 230 from 20, 260 from 10, 350 below. At 39 hours it is 230, at 40 it is
  160, at 9.9 it is 350, at 10 it is 260, at 20 it is 230, and more hours never give a
  higher rate.
\<close>

theorem package_rate_step_function:
  assumes "billingType project = Pacote"
  shows "(\<forall>h. getProjectPricePerHour project h =
             (if 40 \<le> h then 160 else if 20 \<le> h then 230 else if 10 \<le> h then 260 else 350))
       \<and> getProjectPricePerHour project 39 = 230
       \<and> getProjectPricePerHour project 40 = 160
       \<and> getProjectPricePerHour project (99 / 10) = 350
       \<and> getProjectPricePerHour project 10 = 260
       \<and> getProjectPricePerHour project 20 = 230
       \<and> (\<forall>h1 h2. h1 \<le> h2 \<longrightarrow>
             getProjectPricePerHour project h2 \<le> getProjectPricePerHour project h1)"
proof -
  have step: "getProjectPricePerHour project h =
      (if 40 \<le> h then 160 else if 20 \<le> h then 230 else if 10 \<le> h then 260 else 350)" for h
    using assms by (simp add: getProjectPricePerHour_def)
  have mono: "getProjectPricePerHour project h2 \<le> getProjectPricePerHour project h1"
    if "h1 \<le> h2" for h1 h2
    using that by (auto simp: step)
  have at_points: "getProjectPricePerHour project 39 = 230"
      "getProjectPricePerHour project 40 = 160"
      "getProjectPricePerHour project (99 / 10) = 350"
      "getProjectPricePerHour project 10 = 260"
      "getProjectPricePerHour project 20 = 230"
    by (simp_all add: step)
  from step mono at_points show ?thesis
    by blast
qed

theorem package_rate_step_function_witness:
  "billingType \<lparr>p_id = ''p1'', p_name = ''Album'', billingType = Pacote, customRate = None,
       pacoteSelecionado = None\<rparr> = Pacote
   \<and> getProjectPricePerHour \<lparr>p_id = ''p1'', p_name = ''Album'', billingType = Pacote,
       customRate = None, pacoteSelecionado = None\<rparr> 39 = 230
   \<and> getProjectPricePerHour \<lparr>p_id = ''p1'', p_name = ''Album'', billingType = Pacote,
       customRate = None, pacoteSelecionado = None\<rparr> 40 = 160
   \<and> getProjectPricePerHour \<lparr>p_id = ''p1'', p_name = ''Album'', billingType = Pacote,
       customRate = None, pacoteSelecionado = None\<rparr> 40
       \<le> getProjectPricePerHour \<lparr>p_id = ''p1'', p_name = ''Album'', billingType = Pacote,
       customRate = None, pacoteSelecionado = None\<rparr> 39"
proof -
  define p where "p = \<lparr>p_id = ''p1'', p_name = ''Album'', billingType = Pacote,
      customRate = None, pacoteSelecionado = None\<rparr>"
  have h: "billingType p = Pacote"
    by (simp add: p_def)
  from package_rate_step_function [OF h]
  have "getProjectPricePerHour p 39 = 230" "getProjectPricePerHour p 40 = 160"
      "getProjectPricePerHour p 40 \<le> getProjectPricePerHour p 39"
    by simp_all
  with h show ?thesis
    unfolding p_def by blast
qed

text \<open>
  C1. The claim says that a custom project without a rate resolves to 0. In
  \<^verbatim>\<open>getProjectPricePerHour\<close> the custom branch is guarded by
  \<^verbatim>\<open>typeof project.customRate === 'number'\<close>, and the tiers are "the default for any other
  cases": such a project is priced by the tiers, 350 below 10 hours. The counterexample is
  a custom project without a rate at 0 hours.
\<close>

theorem custom_without_rate_counterexample:
  "getProjectPricePerHour \<lparr>p_id = ''p1'', p_name = ''Album'', billingType = Personalizado,
       customRate = None, pacoteSelecionado = None\<rparr> 0 \<noteq> 0"
  by (simp add: getProjectPricePerHour_def)

text \<open>
  C1, amended. For a custom project whose rate is absent, \<^verbatim>\<open>getProjectPricePerHour\<close>
  resolves the package tiers on the cumulative hours passed in (so the rate does depend on
  the hours and is never 0); it is \<^verbatim>\<open>getPricePerHourForProject\<close>, the rate function of the
  other variant, that resolves 0, whatever the hours.
\<close>

theorem custom_without_rate_uses_tiers:
  assumes "billingType project = Personalizado" and "customRate project = None"
  shows "getProjectPricePerHour project h =
           (if 40 \<le> h then 160 else if 20 \<le> h then 230 else if 10 \<le> h then 260 else 350)
       \<and> getProjectPricePerHour project h \<noteq> 0
       \<and> getPricePerHourForProject project = 0"
  using assms by (simp add: getProjectPricePerHour_def getPricePerHourForProject_def)

theorem custom_without_rate_uses_tiers_witness:
  "getProjectPricePerHour \<lparr>p_id = ''p1'', p_name = ''Album'', billingType = Personalizado,
       customRate = None, pacoteSelecionado = None\<rparr> 25 = 230
   \<and> getPricePerHourForProject \<lparr>p_id = ''p1'', p_name = ''Album'',
       billingType = Personalizado, customRate = None, pacoteSelecionado = None\<rparr> = 0"
proof -
  define p where "p = \<lparr>p_id = ''p1'', p_name = ''Album'', billingType = Personalizado,
      customRate = None, pacoteSelecionado = None\<rparr>"
  have h: "billingType p = Personalizado" "customRate p = None"
    by (simp_all add: p_def)
  from custom_without_rate_uses_tiers [OF h, of 25]
  have "getProjectPricePerHour p 25 = 230 \<and> getPricePerHourForProject p = 0"
    by simp
  then show ?thesis
    unfolding p_def .
qed



text \<open>
  C7. \<^verbatim>\<open>calculateProjectCost\<close> returns the absent result exactly when the project is
  absent; the model has no other failure, so nothing is thrown, and every present project
  gets a metric.
\<close>

theorem calculateProjectCost_null_iff:
  "(calculateProjectCost bookings project = None) = (project = None)
   \<and> (\<exists>m. calculateProjectCost bookings (Some p) = Some m)"
  by (simp add: calculateProjectCost_def Let_def split: option.splits)

section \<open>Facts about the two loops\<close>



lemma bookedLoop_Some:
  "bookedLoop S E bookings = Some r \<Longrightarrow>
     isBooked r \<and> \<not> isBuffer r \<and> (\<exists>b \<in> set bookings. bookingDetails r = Some b \<and> directlyBooked S E b)"
  by (induction bookings) (auto split: if_splits)

lemma bufferLoop_Some:
  "bufferLoop S E bookings = Some r \<Longrightarrow>
     \<not> isBooked r \<and> isBuffer r
     \<and> (\<exists>b \<in> set bookings. bookingDetails r = Some b \<and> \<not> directlyBooked S E b \<and> inBufferZone S b)"
  by (induction bookings)
    (auto simp: Let_def inBufferZone_def subHours_def addHours_def BUFFER_HOURS_def split: if_splits)


section \<open>Claims about the slot classifier\<close>

text \<open>
  C10. Whatever the slot and the bookings, the result of \<^verbatim>\<open>checkSlotAvailability\<close> never
  has \<open>isBooked\<close> and \<open>isBuffer\<close> both true, and it carries \<open>bookingDetails\<close> exactly when
  one of the two flags is true.
\<close>

theorem checkSlotAvailability_flags:
  "\<not> (isBooked (checkSlotAvailability S bookings) \<and> isBuffer (checkSlotAvailability S bookings))
   \<and> (bookingDetails (checkSlotAvailability S bookings) \<noteq> None)
       = (isBooked (checkSlotAvailability S bookings) \<or> isBuffer (checkSlotAvailability S bookings))"
proof (cases "bookedLoop S (addHours S 1) bookings")
  case (Some r)
  from bookedLoop_Some [OF Some] Some show ?thesis
    by (auto simp: checkSlotAvailability_def)
next
  case None
  show ?thesis
  proof (cases "bufferLoop S (addHours S 1) bookings")
    case (Some r)
    from bufferLoop_Some [OF Some] Some None show ?thesis
      by (auto simp: checkSlotAvailability_def)
  next
    case inner: None
    with None show ?thesis
      by (simp add: checkSlotAvailability_def)
  qed
qed

text \<open>
  C6. A booking from 14:00 to 16:00 of any day \<open>d\<close> (its midnight as an instant), with the
  buffer of one hour: the slot at 13:00 is buffer, the slots at 14:00 and 15:00 are booked,
  the slot at 16:00 is buffer and the slot at 17:00 is free.
\<close>

theorem booking_14_to_16_scenario:
  "checkSlotAvailability (addHours d 13)
     [\<lparr>b_id = i, startTime = addHours d 14, endTime = addHours d 16, clientName = n,
       service = s, title = t\<rparr>]
     = \<lparr>isBooked = False, isBuffer = True, bookingDetails =
         Some \<lparr>b_id = i, startTime = addHours d 14, endTime = addHours d 16, clientName = n,
           service = s, title = t\<rparr>\<rparr>
   \<and> checkSlotAvailability (addHours d 14)
     [\<lparr>b_id = i, startTime = addHours d 14, endTime = addHours d 16, clientName = n,
       service = s, title = t\<rparr>]
     = \<lparr>isBooked = True, isBuffer = False, bookingDetails =
         Some \<lparr>b_id = i, startTime = addHours d 14, endTime = addHours d 16, clientName = n,
           service = s, title = t\<rparr>\<rparr>
   \<and> checkSlotAvailability (addHours d 15)
     [\<lparr>b_id = i, startTime = addHours d 14, endTime = addHours d 16, clientName = n,
       service = s, title = t\<rparr>]
     = \<lparr>isBooked = True, isBuffer = False, bookingDetails =
         Some \<lparr>b_id = i, startTime = addHours d 14, endTime = addHours d 16, clientName = n,
           service = s, title = t\<rparr>\<rparr>
   \<and> checkSlotAvailability (addHours d 16)
     [\<lparr>b_id = i, startTime = addHours d 14, endTime = addHours d 16, clientName = n,
       service = s, title = t\<rparr>]
     = \<lparr>isBooked = False, isBuffer = True, bookingDetails =
         Some \<lparr>b_id = i, startTime = addHours d 14, endTime = addHours d 16, clientName = n,
           service = s, title = t\<rparr>\<rparr>
   \<and> checkSlotAvailability (addHours d 17)
     [\<lparr>b_id = i, startTime = addHours d 14, endTime = addHours d 16, clientName = n,
       service = s, title = t\<rparr>]
     = \<lparr>isBooked = False, isBuffer = False, bookingDetails = None\<rparr>"
  by (simp add: checkSlotAvailability_def directlyBooked_def addHours_def subHours_def
      BUFFER_HOURS_def)




section \<open>Facts about the display week\<close>








section \<open>Claims about the display week\<close>


end
